theory Spec2Isabelle
  imports
    Complex_Main
    "HOL-Library.Char_ord"
    "HOL-Library.List_Lexorder"
    "HOL-Library.Product_Lexorder"
    "HOL-Library.Sublist"
begin

section \<open>Python values used by the scripts\<close>

text \<open>
  The three analysis scripts (\<^verbatim>\<open>cohortRetentionAnalysis.py\<close>,
  \<^verbatim>\<open>Milpacs/unitStrengthHistory.py\<close>, \<^verbatim>\<open>CohortMovementTracker.py\<close>) are embedded
  function by function. Exceptions are values of \<open>py_error\<close>; a function that can raise
  returns \<open>py_error + 'a\<close>.

  Text is \<open>string\<close>, read as ASCII: the character classes below are Python's
  \<^verbatim>\<open>str.isalpha\<close>, \<^verbatim>\<open>str.isdigit\<close>, \<^verbatim>\<open>str.isspace\<close> and the regular
  expression classes \<^verbatim>\<open>\d\<close>, \<^verbatim>\<open>\w\<close>, \<^verbatim>\<open>[A-Z]\<close> restricted to code points
  below 128.
\<close>

datatype py_error = ValueError | KeyError | TypeError

definition ord :: "char \<Rightarrow> int" where
  "ord c = int (of_char c)"

definition is_upper :: "char \<Rightarrow> bool" where
  "is_upper c = (65 \<le> ord c \<and> ord c \<le> 90)"

definition is_lower :: "char \<Rightarrow> bool" where
  "is_lower c = (97 \<le> ord c \<and> ord c \<le> 122)"

definition is_alpha :: "char \<Rightarrow> bool" where
  "is_alpha c = (is_upper c \<or> is_lower c)"

definition is_digit :: "char \<Rightarrow> bool" where
  "is_digit c = (48 \<le> ord c \<and> ord c \<le> 57)"

definition is_word :: "char \<Rightarrow> bool" where
  "is_word c = (is_alpha c \<or> is_digit c \<or> c = CHR ''_'')"

definition is_space :: "char \<Rightarrow> bool" where
  "is_space c = ((9 \<le> ord c \<and> ord c \<le> 13) \<or> (28 \<le> ord c \<and> ord c \<le> 32))"

definition upper_char :: "char \<Rightarrow> char" where
  "upper_char c = (if is_lower c then char_of (of_char c - (32::nat)) else c)"

definition upper :: "string \<Rightarrow> string" where
  "upper s = map upper_char s"

definition isalpha :: "string \<Rightarrow> bool" where
  "isalpha s = (s \<noteq> [] \<and> list_all is_alpha s)"

definition isdigit :: "string \<Rightarrow> bool" where
  "isdigit s = (s \<noteq> [] \<and> list_all is_digit s)"

definition strip :: "string \<Rightarrow> string" where
  "strip s = rev (dropWhile is_space (rev (dropWhile is_space s)))"

definition digit_char :: "nat \<Rightarrow> char" where
  "digit_char n = char_of (48 + n mod 10)"

fun str_nat :: "nat \<Rightarrow> string" where
  "str_nat n = (if n < 10 then [digit_char n] else str_nat (n div 10) @ [digit_char n])"

declare str_nat.simps [simp del]

definition str_int :: "int \<Rightarrow> string" where
  "str_int i = (if i < 0 then CHR ''-'' # str_nat (nat (- i)) else str_nat (nat i))"

text \<open>\<^verbatim>\<open>s.split(c)\<close> for a one-character separator: always at least one part.\<close>

fun split_char :: "char \<Rightarrow> string \<Rightarrow> string list" where
  "split_char sep [] = [[]]"
| "split_char sep (c # cs) =
     (if c = sep then [] # split_char sep cs
      else (case split_char sep cs of
              p # ps \<Rightarrow> (c # p) # ps
            | [] \<Rightarrow> [[c]]))"

text \<open>
  \<^verbatim>\<open>s.split(sep)\<close> for a separator of one or more characters: the parts between the
  occurrences of \<open>sep\<close>, found from the left without overlap. \<open>acc\<close> is the part being
  read. (Python raises on an empty separator; the scripts never pass one.)
\<close>

function split_str :: "string \<Rightarrow> string \<Rightarrow> string \<Rightarrow> string list" where
  "split_str sep acc [] = [acc]"
| "split_str sep acc (c # cs) =
     (if sep \<noteq> [] \<and> prefix sep (c # cs)
      then acc # split_str sep [] (drop (length sep) (c # cs))
      else split_str sep (acc @ [c]) cs)"
  by pat_completeness auto
termination
  by (relation "measure (\<lambda>(sep, acc, s). length s)") (auto simp: neq_Nil_conv)

section \<open>Unit token normalisers\<close>

text \<open>
  \<^verbatim>\<open>normalize_squad\<close> of \<^verbatim>\<open>cohortRetentionAnalysis.py\<close>:
  \<^verbatim>\<open>
  if squad is None: return None
  squad = squad.strip().upper()
  if len(squad) == 1 and squad.isalpha(): return str(ord(squad) - ord('A') + 1)
  elif squad.isdigit(): return squad
  return None
  \<close>
\<close>

definition normalize_squad :: "string option \<Rightarrow> string option" where
  "normalize_squad squad =
     (case squad of
        None \<Rightarrow> None
      | Some s0 \<Rightarrow>
          (let s = upper (strip s0) in
           if length s = 1 \<and> isalpha s then Some (str_int (ord (hd s) - ord CHR ''A'' + 1))
           else if isdigit s then Some s
           else None))"

text \<open>
  \<^verbatim>\<open>normalize_squad\<close> of \<^verbatim>\<open>Milpacs/unitStrengthHistory.py\<close>:
  \<^verbatim>\<open>
  if squad is None: return None
  if squad.isalpha(): return str(ord(squad.upper()) - ord('A') + 1)
  return squad
  \<close>
  \<^verbatim>\<open>ord\<close> of a string that is not one character long raises TypeError.
\<close>

definition normalize_squad_ush :: "string option \<Rightarrow> py_error + string option" where
  "normalize_squad_ush squad =
     (case squad of
        None \<Rightarrow> Inr None
      | Some s \<Rightarrow>
          if isalpha s then
            (if length (upper s) = 1
             then Inr (Some (str_int (ord (hd (upper s)) - ord CHR ''A'' + 1)))
             else Inl TypeError)
          else Inr (Some s))"



section \<open>Cohort label normalisation (CohortMovementTracker.py)\<close>




section \<open>Dates\<close>

text \<open>
  A \<^verbatim>\<open>datetime\<close> (and a pandas \<^verbatim>\<open>Timestamp\<close>) is the number of microseconds since
  1970-01-01 00:00, without time zone. \<^verbatim>\<open>timedelta(days=n)\<close> is \<open>n * DAY\<close>. A calendar
  date is a multiple of \<open>DAY\<close>: that is what \<^verbatim>\<open>strptime(s, "%Y-%m-%d")\<close> returns, while
  \<^verbatim>\<open>datetime.now()\<close> carries the time of day. The integers are unbounded; pandas
  itself holds timestamps of the years 1677 to 2262 only, and dates outside that range
  are beyond the model.
\<close>

type_synonym datetime = int

definition DAY :: int where
  "DAY = 86400000000"

definition timedelta_days :: "int \<Rightarrow> int" where
  "timedelta_days n = n * DAY"

definition is_leap :: "int \<Rightarrow> bool" where
  "is_leap y = (y mod 4 = 0 \<and> (y mod 100 \<noteq> 0 \<or> y mod 400 = 0))"

definition days_in_month :: "int \<Rightarrow> int \<Rightarrow> int" where
  "days_in_month y m =
     (if m = 2 then (if is_leap y then 29 else 28)
      else if m = 4 \<or> m = 6 \<or> m = 9 \<or> m = 11 then 30 else 31)"

text \<open>Days since 1970-01-01 of a date of the proleptic Gregorian calendar, and back.\<close>

definition days_from_civil :: "int \<Rightarrow> int \<Rightarrow> int \<Rightarrow> int" where
  "days_from_civil y0 m d =
     (let y = (if m \<le> 2 then y0 - 1 else y0);
          era = y div 400;
          yoe = y - era * 400;
          doy = (153 * (if m > 2 then m - 3 else m + 9) + 2) div 5 + d - 1;
          doe = yoe * 365 + yoe div 4 - yoe div 100 + doy
      in era * 146097 + doe - 719468)"

definition civil_from_days :: "int \<Rightarrow> int \<times> int \<times> int" where
  "civil_from_days z0 =
     (let z = z0 + 719468;
          era = z div 146097;
          doe = z - era * 146097;
          yoe = (doe - doe div 1460 + doe div 36524 - doe div 146096) div 365;
          doy = doe - (365 * yoe + yoe div 4 - yoe div 100);
          mp = (5 * doy + 2) div 153;
          d = doy - (153 * mp + 2) div 5 + 1;
          m = (if mp < 10 then mp + 3 else mp - 9);
          y = yoe + era * 400
      in (if m \<le> 2 then y + 1 else y, m, d))"

text \<open>
  \<^verbatim>\<open>datetime.strptime(s, "%Y-%m-%d")\<close>. The library turns the format into the regular
  expression
  \<^verbatim>\<open>(?P<Y>\d\d\d\d)-(?P<m>1[0-2]|0[1-9]|[1-9])-(?P<d>3[0-1]|[1-2]\d|0[1-9]|[1-9]| [1-9])\<close>,
  matches it at the start of the string, raises ValueError when it does not match or
  when text remains after the match, and raises ValueError again when the fields are
  not a date (year 0, day 31 of a 30-day month).
\<close>

definition digit_val :: "char \<Rightarrow> int" where
  "digit_val c = ord c - 48"

definition match_Y :: "string \<Rightarrow> (int \<times> string) option" where
  "match_Y s =
     (case s of
        a # b # c # d # rest \<Rightarrow>
          if is_digit a \<and> is_digit b \<and> is_digit c \<and> is_digit d
          then Some (1000 * digit_val a + 100 * digit_val b + 10 * digit_val c + digit_val d, rest)
          else None
      | _ \<Rightarrow> None)"

definition two_chars :: "(char \<Rightarrow> bool) \<Rightarrow> (char \<Rightarrow> bool) \<Rightarrow> string \<Rightarrow> bool" where
  "two_chars p q s = (case s of a # b # _ \<Rightarrow> p a \<and> q b | _ \<Rightarrow> False)"

definition one_to_nine :: "char \<Rightarrow> bool" where
  "one_to_nine c = (is_digit c \<and> c \<noteq> CHR ''0'')"

definition match_m :: "string \<Rightarrow> (int \<times> string) option" where
  "match_m s =
     (if two_chars (\<lambda>a. a = CHR ''1'') (\<lambda>b. b \<in> set ''012'') s
        \<or> two_chars (\<lambda>a. a = CHR ''0'') one_to_nine s
      then Some (10 * digit_val (s ! 0) + digit_val (s ! 1), drop 2 s)
      else (case s of
              a # rest \<Rightarrow> if one_to_nine a then Some (digit_val a, rest) else None
            | [] \<Rightarrow> None))"

definition match_d :: "string \<Rightarrow> (int \<times> string) option" where
  "match_d s =
     (if two_chars (\<lambda>a. a = CHR ''3'') (\<lambda>b. b \<in> set ''01'') s
        \<or> two_chars (\<lambda>a. a \<in> set ''12'') is_digit s
        \<or> two_chars (\<lambda>a. a = CHR ''0'') one_to_nine s
      then Some (10 * digit_val (s ! 0) + digit_val (s ! 1), drop 2 s)
      else if two_chars (\<lambda>a. a = CHR '' '') one_to_nine s
      then Some (digit_val (s ! 1), drop 2 s)
      else (case s of
              a # rest \<Rightarrow> if one_to_nine a then Some (digit_val a, rest) else None
            | [] \<Rightarrow> None))"

definition strptime_ymd :: "string \<Rightarrow> py_error + datetime" where
  "strptime_ymd s =
     (case match_Y s of
        None \<Rightarrow> Inl ValueError
      | Some (y, r1) \<Rightarrow>
          (case r1 of
             [] \<Rightarrow> Inl ValueError
           | h1 # r2 \<Rightarrow>
               if h1 \<noteq> CHR ''-'' then Inl ValueError
               else
                 (case match_m r2 of
                    None \<Rightarrow> Inl ValueError
                  | Some (m, r3) \<Rightarrow>
                      (case r3 of
                         [] \<Rightarrow> Inl ValueError
                       | h2 # r4 \<Rightarrow>
                           if h2 \<noteq> CHR ''-'' then Inl ValueError
                           else
                             (case match_d r4 of
                                None \<Rightarrow> Inl ValueError
                              | Some (d, r5) \<Rightarrow>
                                  if r5 \<noteq> [] then Inl ValueError
                                  else if y < 1 \<or> d > days_in_month y m then Inl ValueError
                                  else Inr (days_from_civil y m d * DAY))))))"

text \<open>\<^verbatim>\<open>pd.date_range(start=a, end=b)\<close>: \<open>a\<close>, \<open>a\<close> + 1 day, ... up to and including \<open>b\<close>.\<close>

definition date_range :: "datetime \<Rightarrow> datetime \<Rightarrow> datetime list" where
  "date_range start stop = map (\<lambda>k. start + int k * DAY) [0 ..< nat ((stop - start) div DAY + 1)]"

section \<open>Data model\<close>

text \<open>
  A unit is the dictionary \<^verbatim>\<open>{'Squad', 'Platoon', 'Company', 'Battalion'}\<close>; \<open>None\<close> is
  Python's \<^verbatim>\<open>None\<close>. An event row and a membership row carry the four unit keys next
  to their own.
\<close>

record unit_designator =
  Squad :: "string option"
  Platoon :: "string option"
  Company :: "string option"
  Battalion :: "string option"

datatype event_kind = transfer | discharge

record event_row = unit_designator +
  date :: datetime
  event :: event_kind

record membership = unit_designator +
  start_date :: datetime
  end_date :: "datetime option"

text \<open>
  One record of a member document; a key that is missing is \<open>None\<close>
  (\<^verbatim>\<open>record["recordType"]\<close> then raises KeyError). \<^verbatim>\<open>data.get("records", [])\<close> reads
  \<open>records\<close>.
\<close>

record raw_record =
  recordType :: "string option"
  recordDate :: "string option"
  recordDetails :: "string option"

record document =
  records :: "raw_record list option"

section \<open>Unit designator parser\<close>

text \<open>
  \<^verbatim>\<open>re.findall\<close> for the patterns \<^verbatim>\<open>\b([A-Z])\b\<close>, \<^verbatim>\<open>\b(\d)\b\<close> and
  \<^verbatim>\<open>\b([A-Z]|\d)\<close>\<^verbatim>\<open>\b\<close>: the characters of class \<open>p\<close> with no word character on either
  side, from the left. \<open>prev\<close> tells whether the character before is a word character.
\<close>

fun findall_lone :: "(char \<Rightarrow> bool) \<Rightarrow> bool \<Rightarrow> string \<Rightarrow> string list" where
  "findall_lone p prev [] = []"
| "findall_lone p prev (c # cs) =
     (if p c \<and> \<not> prev \<and> (case cs of [] \<Rightarrow> True | d # _ \<Rightarrow> \<not> is_word d)
      then [c] # findall_lone p (is_word c) cs
      else findall_lone p (is_word c) cs)"

definition company_pattern :: "string \<Rightarrow> string list" where
  "company_pattern text = findall_lone is_upper False text"

definition platoon_pattern :: "string \<Rightarrow> string list" where
  "platoon_pattern text = findall_lone is_digit False text"

definition squad_pattern :: "string \<Rightarrow> string list" where
  "squad_pattern text = findall_lone (\<lambda>c. is_upper c \<or> is_digit c) False text"

text \<open>\<^verbatim>\<open>re.findall\<close> for \<^verbatim>\<open>(1-7|2-7|3-7|ACD)\<close>.\<close>

fun battalion_pattern :: "string \<Rightarrow> string list" where
  "battalion_pattern (a # b # c # rest) =
     (if [a, b, c] \<in> set [''1-7'', ''2-7'', ''3-7'', ''ACD'']
      then [a, b, c] # battalion_pattern rest
      else battalion_pattern (b # c # rest))"
| "battalion_pattern _ = []"

definition safe_extract :: "string list \<Rightarrow> string option" where
  "safe_extract matches = (case matches of [] \<Rightarrow> None | m # _ \<Rightarrow> Some m)"

definition part_at :: "string list \<Rightarrow> nat \<Rightarrow> string option" where
  "part_at parts i = (if length parts > i then Some (parts ! i) else None)"

text \<open>
  \<^verbatim>\<open>parse_unit\<close> of \<^verbatim>\<open>cohortRetentionAnalysis.py\<close>. \<^verbatim>\<open>parts[0]\<close> always exists:
  \<^verbatim>\<open>split\<close> returns at least one part.
\<close>

definition parse_unit :: "string \<Rightarrow> unit_designator" where
  "parse_unit title =
     (let parts = split_char CHR ''/'' title in
      \<lparr> Squad = normalize_squad (safe_extract (squad_pattern (hd parts))),
        Platoon = (case part_at parts 1 of None \<Rightarrow> None | Some t \<Rightarrow> safe_extract (platoon_pattern t)),
        Company = (case part_at parts 2 of None \<Rightarrow> None | Some t \<Rightarrow> safe_extract (company_pattern t)),
        Battalion = (case part_at parts 3 of None \<Rightarrow> None | Some t \<Rightarrow> safe_extract (battalion_pattern t)) \<rparr>)"

text \<open>\<^verbatim>\<open>parse_unit\<close> of \<^verbatim>\<open>Milpacs/unitStrengthHistory.py\<close>, with that file's normaliser.\<close>

definition parse_unit_ush :: "string \<Rightarrow> py_error + unit_designator" where
  "parse_unit_ush title =
     (let parts = split_char CHR ''/'' title in
      case normalize_squad_ush
             (case part_at parts 0 of None \<Rightarrow> None | Some t \<Rightarrow> safe_extract (squad_pattern t)) of
        Inl e \<Rightarrow> Inl e
      | Inr squad \<Rightarrow>
          Inr \<lparr> Squad = squad,
                Platoon = (case part_at parts 1 of None \<Rightarrow> None | Some t \<Rightarrow> safe_extract (platoon_pattern t)),
                Company = (case part_at parts 2 of None \<Rightarrow> None | Some t \<Rightarrow> safe_extract (company_pattern t)),
                Battalion = (case part_at parts 3 of None \<Rightarrow> None | Some t \<Rightarrow> safe_extract (battalion_pattern t)) \<rparr>)"

definition parse_unit_cra :: "string \<Rightarrow> py_error + unit_designator" where
  "parse_unit_cra title = Inr (parse_unit title)"

section \<open>Event extractor\<close>

text \<open>
  The loop of \<^verbatim>\<open>extract_events\<close> (the same text in both analysis scripts; \<open>parse\<close> is
  the script's own \<^verbatim>\<open>parse_unit\<close>):
  \<^verbatim>\<open>
  for record in data.get("records", []):
      record_type = record["recordType"]
      record_date = datetime.strptime(record["recordDate"], "%Y-%m-%d")
      details = record["recordDetails"]
      if record_type == "RECORD_TYPE_TRANSFER":
          unit_str = details.split("Assigned")[-1].strip()
          unit = parse_unit(unit_str)
          events.append({'date': record_date, 'event': 'transfer', **unit})
      elif record_type == "RECORD_TYPE_DISCHARGE":
          events.append({'date': record_date, 'event': 'discharge', 'Squad': None, ...})
  \<close>
  There is no \<^verbatim>\<open>try\<close> in either script: an exception of one record leaves the function.
\<close>

definition unit_str_of :: "string \<Rightarrow> string" where
  "unit_str_of details = strip (last (split_str ''Assigned'' [] details))"

fun extract_events_loop ::
  "(string \<Rightarrow> py_error + unit_designator) \<Rightarrow> raw_record list \<Rightarrow> py_error + event_row list" where
  "extract_events_loop parse [] = Inr []"
| "extract_events_loop parse (r # rs) =
     (case recordType r of
        None \<Rightarrow> Inl KeyError
      | Some record_type \<Rightarrow>
     (case recordDate r of
        None \<Rightarrow> Inl KeyError
      | Some date_string \<Rightarrow>
     (case strptime_ymd date_string of
        Inl e \<Rightarrow> Inl e
      | Inr record_date \<Rightarrow>
     (case recordDetails r of
        None \<Rightarrow> Inl KeyError
      | Some details \<Rightarrow>
          if record_type = ''RECORD_TYPE_TRANSFER'' then
            (case parse (unit_str_of details) of
               Inl e \<Rightarrow> Inl e
             | Inr u \<Rightarrow>
                 (case extract_events_loop parse rs of
                    Inl e \<Rightarrow> Inl e
                  | Inr events \<Rightarrow>
                      Inr (\<lparr> Squad = Squad u, Platoon = Platoon u, Company = Company u,
                             Battalion = Battalion u, date = record_date, event = transfer \<rparr>
                           # events)))
          else if record_type = ''RECORD_TYPE_DISCHARGE'' then
            (case extract_events_loop parse rs of
               Inl e \<Rightarrow> Inl e
             | Inr events \<Rightarrow>
                 Inr (\<lparr> Squad = None, Platoon = None, Company = None, Battalion = None,
                        date = record_date, event = discharge \<rparr>
                      # events))
          else extract_events_loop parse rs))))"

text \<open>
  \<^verbatim>\<open>pd.DataFrame(events).sort_values('date').reset_index(drop=True)\<close>; an empty list
  gives the empty frame. pandas sorts with its default algorithm, which promises no
  order among rows of one date; the model keeps such rows in record order.
\<close>

definition extract_events ::
  "(string \<Rightarrow> py_error + unit_designator) \<Rightarrow> document \<Rightarrow> py_error + event_row list" where
  "extract_events parse data =
     (case extract_events_loop parse (case records data of None \<Rightarrow> [] | Some rs \<Rightarrow> rs) of
        Inl e \<Rightarrow> Inl e
      | Inr events \<Rightarrow> Inr (sort_key date events))"

section \<open>Membership builder\<close>

text \<open>
  The loop of \<^verbatim>\<open>create_memberships\<close> (the same text in both analysis scripts), with
  its two variables \<^verbatim>\<open>memberships\<close> and \<^verbatim>\<open>current_assignment\<close>:
  \<^verbatim>\<open>
  if event['event'] == 'transfer':
      if current_assignment:
          current_assignment['end_date'] = event['date'] - timedelta(days=1)
          memberships.append(current_assignment)
      current_assignment = {'start_date': event['date'], 'Squad': ..., 'end_date': None}
  elif event['event'] == 'discharge':
      if current_assignment:
          current_assignment['end_date'] = event['date']
          memberships.append(current_assignment)
          current_assignment = None
  \<close>
\<close>

fun create_memberships_loop ::
  "event_row list \<Rightarrow> membership list \<Rightarrow> membership option
     \<Rightarrow> membership list \<times> membership option" where
  "create_memberships_loop [] memberships current_assignment = (memberships, current_assignment)"
| "create_memberships_loop (ev # evs) memberships current_assignment =
     (case event ev of
        transfer \<Rightarrow>
          create_memberships_loop evs
            (case current_assignment of
               None \<Rightarrow> memberships
             | Some c \<Rightarrow> memberships @ [c\<lparr>end_date := Some (date ev - timedelta_days 1)\<rparr>])
            (Some \<lparr> Squad = Squad ev, Platoon = Platoon ev, Company = Company ev,
                    Battalion = Battalion ev, start_date = date ev, end_date = None \<rparr>)
      | discharge \<Rightarrow>
          (case current_assignment of
             None \<Rightarrow> create_memberships_loop evs memberships None
           | Some c \<Rightarrow>
               create_memberships_loop evs (memberships @ [c\<lparr>end_date := Some (date ev)\<rparr>]) None))"

text \<open>
  After the loop:
  \<^verbatim>\<open>
  if current_assignment:
      current_assignment['end_date'] = datetime.now()
      memberships.append(current_assignment)
  \<close>
  \<open>now\<close> is the value the clock returns to this call.
\<close>

definition create_memberships :: "datetime \<Rightarrow> event_row list \<Rightarrow> membership list" where
  "create_memberships now events =
     (case create_memberships_loop events [] None of
        (memberships, None) \<Rightarrow> memberships
      | (memberships, Some c) \<Rightarrow> memberships @ [c\<lparr>end_date := Some now\<rparr>])"

section \<open>Daily strength\<close>

text \<open>
  The rows appended by the loop of \<^verbatim>\<open>calculate_daily_strength\<close>: one per date of
  \<^verbatim>\<open>pd.date_range(start=row['start_date'], end=row['end_date'])\<close>, which raises
  ValueError when the end is missing.
\<close>

type_synonym day_row = "datetime \<times> string option \<times> string option \<times> string option \<times> string option"

type_synonym day_key = "datetime \<times> string \<times> string \<times> string \<times> string"

fun daily_rows :: "membership list \<Rightarrow> py_error + day_row list" where
  "daily_rows [] = Inr []"
| "daily_rows (row # rows) =
     (case end_date row of
        None \<Rightarrow> Inl ValueError
      | Some stop \<Rightarrow>
          (case daily_rows rows of
             Inl e \<Rightarrow> Inl e
           | Inr rest \<Rightarrow>
               Inr (map (\<lambda>d. (d, Battalion row, Company row, Platoon row, Squad row))
                      (date_range (start_date row) stop) @ rest)))"

text \<open>
  \<^verbatim>\<open>df.groupby(keys)\<close> with the defaults \<^verbatim>\<open>dropna=True, sort=True\<close>: a row with a
  missing value in a key column belongs to no group, and the groups come in the order
  of their keys. \<open>notna_key\<close> is the key of a row, or \<open>None\<close> for a row that is dropped.
\<close>

definition notna_key :: "'a \<times> string option \<times> string option \<times> string option \<times> string option
    \<Rightarrow> ('a \<times> string \<times> string \<times> string \<times> string) option" where
  "notna_key r =
     (case r of
        (d, Some b, Some c, Some p, Some s) \<Rightarrow> Some (d, b, c, p, s)
      | _ \<Rightarrow> None)"

definition groupby_size :: "('k::linorder) option list \<Rightarrow> ('k \<times> nat) list" where
  "groupby_size keys =
     (let ks = List.map_filter id keys
      in map (\<lambda>k. (k, count_list ks k)) (sort (remdups ks)))"

text \<open>
  \<^verbatim>\<open>
  daily_strength_df = pd.DataFrame(daily_strength)
  daily_unit_strength = daily_strength_df.groupby(
      ['date', 'Battalion', 'Company', 'Platoon', 'Squad']).size().reset_index(name='strength')
  return daily_unit_strength.sort_values(by=['date', 'Battalion', 'Company', 'Platoon', 'Squad'])
  \<close>
  A frame built from no rows has no columns, and \<^verbatim>\<open>groupby\<close> raises KeyError.
\<close>

definition calculate_daily_strength :: "membership list \<Rightarrow> py_error + (day_key \<times> nat) list" where
  "calculate_daily_strength memberships_df =
     (case daily_rows memberships_df of
        Inl e \<Rightarrow> Inl e
      | Inr daily_strength \<Rightarrow>
          if daily_strength = [] then Inl KeyError
          else Inr (sort_key fst (groupby_size (map notna_key daily_strength))))"

text \<open>The \<^verbatim>\<open>strength\<close> of the row of a date and unit; 0 when the table has no such row.\<close>

definition strength_at :: "(day_key \<times> nat) list \<Rightarrow> day_key \<Rightarrow> nat" where
  "strength_at table k = (case map_of table k of None \<Rightarrow> 0 | Some n \<Rightarrow> n)"

section \<open>Cohort retention\<close>

text \<open>
  \<^verbatim>\<open>join_date.to_period('M').strftime('%Y-%m')\<close>, the cohort label of a start date.
\<close>

definition pad2 :: "int \<Rightarrow> string" where
  "pad2 n = (if n < 10 then CHR ''0'' # str_int n else str_int n)"

definition assign_cohort :: "datetime \<Rightarrow> string" where
  "assign_cohort join_date =
     (case civil_from_days (join_date div DAY) of
        (y, m, d) \<Rightarrow> str_int y @ CHR ''-'' # pad2 m)"

text \<open>
  \<^verbatim>\<open>round(x, 2)\<close>. The script computes \<^verbatim>\<open>(retained / total) * 100\<close> in binary floating
  point; here the quotient is the exact rational and the rounding is to the nearest
  hundredth, a tie going to the even one.
\<close>

definition round_half_even :: "rat \<Rightarrow> int" where
  "round_half_even x =
     (let f = \<lfloor>x\<rfloor>; r = x - of_int f
      in if r < 1 / 2 then f
         else if r > 1 / 2 then f + 1
         else if even f then f else f + 1)"

definition py_round2 :: "rat \<Rightarrow> rat" where
  "py_round2 x = of_int (round_half_even (x * 100)) / 100"

record cohort_info =
  Cohort_unit :: "string \<times> string \<times> string \<times> string \<times> string"
  Total_Members :: nat
  Retention :: "(int \<times> rat) list"

definition cohort_key :: "membership \<Rightarrow> (string \<times> string \<times> string \<times> string \<times> string) option" where
  "cohort_key m =
     notna_key (assign_cohort (start_date m), Battalion m, Company m, Platoon m, Squad m)"

text \<open>
  \<^verbatim>\<open>group[group['end_date'] >= check_date].shape[0]\<close>: a missing end date is \<^verbatim>\<open>NaT\<close>,
  and \<^verbatim>\<open>NaT >= check_date\<close> is false.
\<close>

definition retained_count :: "membership list \<Rightarrow> datetime \<Rightarrow> nat" where
  "retained_count grp check_date =
     length (filter (\<lambda>m. case end_date m of None \<Rightarrow> False | Some e \<Rightarrow> e \<ge> check_date) grp)"

definition retention_at :: "membership list \<Rightarrow> int \<Rightarrow> rat" where
  "retention_at grp interval =
     (let check_date = Min (set (map start_date grp)) + timedelta_days interval;
          retained = retained_count grp check_date
      in py_round2 ((of_nat retained / of_nat (length grp)) * 100))"

text \<open>
  \<^verbatim>\<open>
  grouped = memberships_df.groupby(['cohort', 'Battalion', 'Company', 'Platoon', 'Squad'])
  for (cohort, battalion, company, platoon, squad), group in grouped:
      cohort_info = {..., 'Total Members': group['start_date'].count()}
      for interval in intervals:
          check_date = group['start_date'].min() + timedelta(days=interval)
          retained = group[group['end_date'] >= check_date].shape[0]
          cohort_info[f'Retention @ {interval} days'] =
              round((retained / cohort_info['Total Members']) * 100, 2)
  \<close>
  \<^verbatim>\<open>memberships_df['start_date']\<close> raises KeyError on a frame without rows (it has no
  columns).
\<close>

definition cohort_group :: "membership list \<Rightarrow> string \<times> string \<times> string \<times> string \<times> string
    \<Rightarrow> membership list" where
  "cohort_group memberships_df k = filter (\<lambda>m. cohort_key m = Some k) memberships_df"

definition calculate_retention :: "int list \<Rightarrow> membership list \<Rightarrow> py_error + cohort_info list" where
  "calculate_retention intervals memberships_df =
     (if memberships_df = [] then Inl KeyError
      else Inr (map (\<lambda>k. let grp = cohort_group memberships_df k
                          in \<lparr> Cohort_unit = k,
                               Total_Members = length grp,
                               Retention = map (\<lambda>interval. (interval, retention_at grp interval))
                                             intervals \<rparr>)
                  (sort (remdups (List.map_filter cohort_key memberships_df)))))"

definition default_intervals :: "int list" where
  "default_intervals = [30, 90, 180, 365]"

section \<open>The two pipelines\<close>

text \<open>
  The loop of \<^verbatim>\<open>main\<close> over the member documents, in both scripts:
  \<^verbatim>\<open>
  events_df = extract_events(data)
  if events_df.empty: continue
  memberships_df = create_memberships(events_df)
  all_memberships.append(memberships_df)
  \<close>
  \<open>clock idx\<close> is what \<^verbatim>\<open>datetime.now()\<close> returns while document number \<open>idx\<close> is
  processed.
\<close>

fun main_loop ::
  "(string \<Rightarrow> py_error + unit_designator) \<Rightarrow> (nat \<Rightarrow> datetime) \<Rightarrow> nat \<Rightarrow> document list
     \<Rightarrow> py_error + membership list list" where
  "main_loop parse clock idx [] = Inr []"
| "main_loop parse clock idx (data # rest) =
     (case extract_events parse data of
        Inl e \<Rightarrow> Inl e
      | Inr events_df \<Rightarrow>
          if events_df = [] then main_loop parse clock (Suc idx) rest
          else
            (case main_loop parse clock (Suc idx) rest of
               Inl e \<Rightarrow> Inl e
             | Inr all_memberships \<Rightarrow>
                 Inr (create_memberships (clock idx) events_df # all_memberships)))"

text \<open>
  \<^verbatim>\<open>main\<close> of \<^verbatim>\<open>Milpacs/unitStrengthHistory.py\<close>; \<open>Inr None\<close> is the return without a
  table (\<^verbatim>\<open>"No relevant records found"\<close>).
\<close>

definition main_ush :: "(nat \<Rightarrow> datetime) \<Rightarrow> document list \<Rightarrow> py_error + (day_key \<times> nat) list option" where
  "main_ush clock docs =
     (case main_loop parse_unit_ush clock 1 docs of
        Inl e \<Rightarrow> Inl e
      | Inr all_memberships \<Rightarrow>
          if all_memberships = [] then Inr None
          else (case calculate_daily_strength (concat all_memberships) of
                  Inl e \<Rightarrow> Inl e
                | Inr table \<Rightarrow> Inr (Some table)))"

text \<open>
  \<^verbatim>\<open>main\<close> of \<^verbatim>\<open>cohortRetentionAnalysis.py\<close>; \<^verbatim>\<open>pd.concat\<close> of an empty list raises
  ValueError.
\<close>

definition main_cra :: "(nat \<Rightarrow> datetime) \<Rightarrow> document list \<Rightarrow> py_error + cohort_info list" where
  "main_cra clock docs =
     (case main_loop parse_unit_cra clock 1 docs of
        Inl e \<Rightarrow> Inl e
      | Inr all_memberships \<Rightarrow>
          if all_memberships = [] then Inl ValueError
          else calculate_retention default_intervals (concat all_memberships))"

section \<open>Relations between consecutive membership rows\<close>

text \<open>
  \<open>closes_before g a b\<close>: row \<open>a\<close> has an end date, and either that end is one day before
  the start of \<open>b\<close> (a transfer closed \<open>a\<close>), or it lies between the two starts (a
  discharge closed \<open>a\<close>); \<open>g\<close> is the least distance between two events.
\<close>

definition closes_before :: "int \<Rightarrow> membership \<Rightarrow> membership \<Rightarrow> bool" where
  "closes_before g a b =
     (case end_date a of
        None \<Rightarrow> False
      | Some e \<Rightarrow>
          (e = start_date b - timedelta_days 1 \<and> start_date a + g \<le> start_date b)
          \<or> (start_date a + g \<le> e \<and> e + g \<le> start_date b))"



text \<open>The state of the loop of \<open>create_memberships\<close> before an event dated \<open>lo\<close> or later.\<close>

definition loop_inv :: "int \<Rightarrow> int \<Rightarrow> membership list \<Rightarrow> membership option \<Rightarrow> bool" where
  "loop_inv g lo ms cur =
     (successively (closes_before g) ms
      \<and> list_all (\<lambda>m. end_date m \<noteq> None) ms
      \<and> (case cur of
            None \<Rightarrow>
              ms = [] \<or> (case end_date (last ms) of
                           None \<Rightarrow> False
                         | Some e \<Rightarrow> start_date (last ms) + g \<le> e \<and> e + g \<le> lo)
          | Some c \<Rightarrow>
              start_date c + g \<le> lo \<and> (ms = [] \<or> closes_before g (last ms) c)))"

section \<open>Membership rows and the buckets they count in\<close>

text \<open>The inclusive span of a row, from its start date to its end date, contains \<open>D\<close>.\<close>

definition covers :: "membership \<Rightarrow> datetime \<Rightarrow> bool" where
  "covers m D = (case end_date m of None \<Rightarrow> False | Some e \<Rightarrow> start_date m \<le> D \<and> D \<le> e)"

text \<open>The unit of a row is the fully known unit \<open>(b, c, p, s)\<close>.\<close>

definition in_unit :: "membership \<Rightarrow> string \<times> string \<times> string \<times> string \<Rightarrow> bool" where
  "in_unit m u =
     (case u of (b, c, p, s) \<Rightarrow>
        Battalion m = Some b \<and> Company m = Some c \<and> Platoon m = Some p \<and> Squad m = Some s)"

text \<open>No unit field of the row is missing.\<close>

definition known_unit :: "membership \<Rightarrow> bool" where
  "known_unit m =
     (Battalion m \<noteq> None \<and> Company m \<noteq> None \<and> Platoon m \<noteq> None \<and> Squad m \<noteq> None)"

definition is_date :: "datetime \<Rightarrow> bool" where
  "is_date t = (t mod DAY = 0)"

text \<open>\<open>D\<close> is one of the dates \<^verbatim>\<open>pd.date_range\<close> lists for the row.\<close>

definition in_range :: "membership \<Rightarrow> datetime \<Rightarrow> bool" where
  "in_range m D =
     (case end_date m of None \<Rightarrow> False | Some e \<Rightarrow> D \<in> set (date_range (start_date m) e))"


text \<open>
  The events of the document leave \<^verbatim>\<open>current_assignment\<close> set at the end of the loop, so
  \<open>create_memberships\<close> reads the clock for it.
\<close>

definition open_ended :: "(string \<Rightarrow> py_error + unit_designator) \<Rightarrow> document \<Rightarrow> bool" where
  "open_ended parse data =
     (case extract_events parse data of
        Inl e \<Rightarrow> False
      | Inr events \<Rightarrow> snd (create_memberships_loop events [] None) \<noteq> None)"

section \<open>Properties of the text primitives\<close>

lemma ord_upper_char: "ord (upper_char c) = (if is_lower c then ord c - 32 else ord c)"
  by (auto simp: upper_char_def is_lower_def ord_def of_char_of nat_le_iff le_diff_conv2 int_ops)

lemma is_alpha_upper_char [simp]: "is_alpha (upper_char c) = is_alpha c"
  unfolding is_alpha_def is_upper_def is_lower_def[of "upper_char c"] ord_upper_char
  by (auto simp: is_lower_def)

lemma is_digit_upper_char [simp]: "is_digit (upper_char c) = is_digit c"
  unfolding is_digit_def ord_upper_char by (auto simp: is_lower_def)


lemma isalpha_upper [simp]: "isalpha (upper s) = isalpha s"
  by (simp add: isalpha_def upper_def list_all_iff)

lemma isdigit_upper [simp]: "isdigit (upper s) = isdigit s"
  by (simp add: isdigit_def upper_def list_all_iff)








lemma split_char_nonempty: "split_char sep s \<noteq> []"
  by (induction s) (auto split: list.splits)

section \<open>The squad normalisers\<close>










section \<open>Boot Camp labels\<close>








section \<open>The unit text of a transfer record\<close>


lemma sublist_Cons_I: "sublist xs ys \<Longrightarrow> sublist xs (y # ys)"
  by (simp add: sublist_Cons_right)











section \<open>The membership builder\<close>

lemma closes_before_end_update [simp]:
  "closes_before g a (c\<lparr>end_date := x\<rparr>) = closes_before g a c"
  by (simp add: closes_before_def split: option.splits)



lemma loop_inv_weaken: "loop_inv g lo ms cur \<Longrightarrow> lo \<le> lo' \<Longrightarrow> loop_inv g lo' ms cur"
  by (auto simp: loop_inv_def split: option.splits)










section \<open>A record whose date does not parse\<close>

lemma extract_events_loop_bad_date:
  assumes "r \<in> set rs" and "recordDate r = Some ds" and "strptime_ymd ds = Inl e"
  shows "isl (extract_events_loop parse rs)"
  using assms(1)
proof (induction rs)
  case Nil
  then show ?case by simp
next
  case (Cons a rs)
  show ?case
  proof (cases "a = r")
    case True
    then show ?thesis
      using assms(2,3) by (simp split: option.splits)
  next
    case False
    then have "isl (extract_events_loop parse rs)"
      using Cons by simp
    then show ?thesis
      by (auto split: option.splits sum.splits)
  qed
qed

lemma main_loop_bad_document:
  assumes "data \<in> set docs" and "isl (extract_events parse data)"
  shows "isl (main_loop parse clock idx docs)"
  using assms(1)
proof (induction docs arbitrary: idx)
  case Nil
  then show ?case by simp
next
  case (Cons a docs)
  show ?case
  proof (cases "a = data")
    case True
    then show ?thesis
      using assms(2) by (auto split: sum.splits)
  next
    case False
    then have "isl (main_loop parse clock (Suc idx) docs)"
      using Cons by simp
    then show ?thesis
      by (auto split: sum.splits)
  qed
qed

text \<open>
  C2 (as amended). A record whose date string \<open>strptime\<close> rejects makes
  \<open>extract_events\<close> raise for the whole document: no event of that member is
  returned, the remaining records are not processed into a result, and \<open>main\<close> of
  either script ends with the exception, without a table.
\<close>

theorem bad_date_aborts_run:
  assumes "records data = Some rs" and "r \<in> set rs"
    and "recordDate r = Some ds" and "strptime_ymd ds = Inl e"
    and "data \<in> set docs"
  shows "isl (extract_events parse data)
       \<and> isl (main_ush clock docs) \<and> isl (main_cra clock docs)"
proof -
  have a: "isl (extract_events parse data)" for parse
    using extract_events_loop_bad_date [OF assms(2,3,4), of parse] assms(1)
    by (auto simp: extract_events_def split: sum.splits)
  have "\<exists>err. main_loop parse clock 1 docs = Inl err" for parse
    using main_loop_bad_document [OF assms(5) a, of parse clock 1] by (simp add: isl_def)
  then obtain e1 e2 where "main_loop parse_unit_ush clock 1 docs = Inl e1"
    and "main_loop parse_unit_cra clock 1 docs = Inl e2"
    by blast
  then show ?thesis
    using a by (simp add: main_ush_def main_cra_def)
qed

theorem bad_date_aborts_run_witness:
  "extract_events parse_unit_cra
     \<lparr>records = Some
        [\<lparr> recordType = Some ''RECORD_TYPE_TRANSFER'', recordDate = Some ''2023-01-01'',
            recordDetails = Some ''Assigned 2/3/B/2-7'' \<rparr>,
         \<lparr> recordType = Some ''RECORD_TYPE_DISCHARGE'', recordDate = Some ''03/01/2023'',
            recordDetails = Some ''retired'' \<rparr>]\<rparr> = Inl ValueError
   \<and> isl (main_ush (\<lambda>i. 1685577600000000)
       [\<lparr>records = Some
          [\<lparr> recordType = Some ''RECORD_TYPE_TRANSFER'', recordDate = Some ''2022-05-01'',
              recordDetails = Some ''Assigned 1/1/A/1-7'' \<rparr>]\<rparr>,
        \<lparr>records = Some
          [\<lparr> recordType = Some ''RECORD_TYPE_TRANSFER'', recordDate = Some ''2023-01-01'',
              recordDetails = Some ''Assigned 2/3/B/2-7'' \<rparr>,
           \<lparr> recordType = Some ''RECORD_TYPE_DISCHARGE'', recordDate = Some ''03/01/2023'',
              recordDetails = Some ''retired'' \<rparr>]\<rparr>])
   \<and> isl (main_cra (\<lambda>i. 1685577600000000)
       [\<lparr>records = Some
          [\<lparr> recordType = Some ''RECORD_TYPE_TRANSFER'', recordDate = Some ''2022-05-01'',
              recordDetails = Some ''Assigned 1/1/A/1-7'' \<rparr>]\<rparr>,
        \<lparr>records = Some
          [\<lparr> recordType = Some ''RECORD_TYPE_TRANSFER'', recordDate = Some ''2023-01-01'',
              recordDetails = Some ''Assigned 2/3/B/2-7'' \<rparr>,
           \<lparr> recordType = Some ''RECORD_TYPE_DISCHARGE'', recordDate = Some ''03/01/2023'',
              recordDetails = Some ''retired'' \<rparr>]\<rparr>])"
proof -
  define good where "good = \<lparr> recordType = Some ''RECORD_TYPE_TRANSFER'',
      recordDate = Some ''2023-01-01'', recordDetails = Some ''Assigned 2/3/B/2-7'' \<rparr>"
  define bad where "bad = \<lparr> recordType = Some ''RECORD_TYPE_DISCHARGE'',
      recordDate = Some ''03/01/2023'', recordDetails = Some ''retired'' \<rparr>"
  define other where "other = \<lparr>records = Some
      [\<lparr> recordType = Some ''RECORD_TYPE_TRANSFER'', recordDate = Some ''2022-05-01'',
          recordDetails = Some ''Assigned 1/1/A/1-7'' \<rparr>]\<rparr>"
  have h1: "records \<lparr>records = Some [good, bad]\<rparr> = Some [good, bad]" by simp
  have h2: "bad \<in> set [good, bad]" by simp
  have h3: "recordDate bad = Some ''03/01/2023''" by (simp add: bad_def)
  have h4: "strptime_ymd ''03/01/2023'' = Inl ValueError" by code_simp
  have h5: "\<lparr>records = Some [good, bad]\<rparr> \<in> set [other, \<lparr>records = Some [good, bad]\<rparr>]" by simp
  have v: "extract_events parse_unit_cra \<lparr>records = Some [good, bad]\<rparr> = Inl ValueError"
    unfolding good_def bad_def by code_simp
  show ?thesis
    using bad_date_aborts_run [OF h1 h2 h3 h4 h5, of parse_unit_cra "\<lambda>i. 1685577600000000"] v
    unfolding good_def bad_def other_def by simp
qed

text \<open>
  C2 as stated fails: with one record dated \<^verbatim>\<open>03/01/2023\<close> the extractor returns no
  event at all, not the event of the good record, and the run of either script over
  two members ends with ValueError.
\<close>

theorem bad_date_not_skipped_counterexample:
  "extract_events parse_unit_cra
     \<lparr>records = Some
        [\<lparr> recordType = Some ''RECORD_TYPE_TRANSFER'', recordDate = Some ''2023-01-01'',
            recordDetails = Some ''Assigned 2/3/B/2-7'' \<rparr>,
         \<lparr> recordType = Some ''RECORD_TYPE_DISCHARGE'', recordDate = Some ''03/01/2023'',
            recordDetails = Some ''retired'' \<rparr>]\<rparr> = Inl ValueError
   \<and> extract_events parse_unit_cra
     \<lparr>records = Some
        [\<lparr> recordType = Some ''RECORD_TYPE_TRANSFER'', recordDate = Some ''2023-01-01'',
            recordDetails = Some ''Assigned 2/3/B/2-7'' \<rparr>]\<rparr>
     = Inr [\<lparr> Squad = Some ''2'', Platoon = Some ''3'', Company = Some ''B'',
              Battalion = Some ''2-7'', date = 1672531200000000, event = transfer \<rparr>]
   \<and> main_ush (\<lambda>i. 1685577600000000)
       [\<lparr>records = Some
          [\<lparr> recordType = Some ''RECORD_TYPE_TRANSFER'', recordDate = Some ''2022-05-01'',
              recordDetails = Some ''Assigned 1/1/A/1-7'' \<rparr>]\<rparr>,
        \<lparr>records = Some
          [\<lparr> recordType = Some ''RECORD_TYPE_TRANSFER'', recordDate = Some ''2023-01-01'',
              recordDetails = Some ''Assigned 2/3/B/2-7'' \<rparr>,
           \<lparr> recordType = Some ''RECORD_TYPE_DISCHARGE'', recordDate = Some ''03/01/2023'',
              recordDetails = Some ''retired'' \<rparr>]\<rparr>] = Inl ValueError
   \<and> main_cra (\<lambda>i. 1685577600000000)
       [\<lparr>records = Some
          [\<lparr> recordType = Some ''RECORD_TYPE_TRANSFER'', recordDate = Some ''2022-05-01'',
              recordDetails = Some ''Assigned 1/1/A/1-7'' \<rparr>]\<rparr>,
        \<lparr>records = Some
          [\<lparr> recordType = Some ''RECORD_TYPE_TRANSFER'', recordDate = Some ''2023-01-01'',
              recordDetails = Some ''Assigned 2/3/B/2-7'' \<rparr>,
           \<lparr> recordType = Some ''RECORD_TYPE_DISCHARGE'', recordDate = Some ''03/01/2023'',
              recordDetails = Some ''retired'' \<rparr>]\<rparr>] = Inl ValueError"
  by code_simp

section \<open>Daily strength\<close>

lemma DAY_pos: "0 < DAY"
  by (simp add: DAY_def)

lemma date_range_iff:
  "D \<in> set (date_range s e) \<longleftrightarrow> s \<le> D \<and> D \<le> e \<and> (D - s) mod DAY = 0"
proof
  assume "D \<in> set (date_range s e)"
  then obtain k where k: "k < nat ((e - s) div DAY + 1)" and D: "D = s + int k * DAY"
    by (auto simp: date_range_def)
  have "int k \<le> (e - s) div DAY" using k by linarith
  then have "int k * DAY \<le> (e - s) div DAY * DAY"
    using DAY_pos by (simp add: mult_right_mono)
  also have "\<dots> \<le> e - s"
    using DAY_pos by (metis mult.commute pos_mod_sign cancel_div_mod_rules(2) add.commute le_add_same_cancel1 mult_div_mod_eq)
  finally have "D \<le> e" using D by simp
  moreover have "s \<le> D" using D DAY_pos by simp
  moreover have "(D - s) mod DAY = 0" using D by simp
  ultimately show "s \<le> D \<and> D \<le> e \<and> (D - s) mod DAY = 0" by simp
next
  assume a: "s \<le> D \<and> D \<le> e \<and> (D - s) mod DAY = 0"
  define k where "k = nat ((D - s) div DAY)"
  have nn: "0 \<le> (D - s) div DAY"
    using a DAY_pos by (simp add: pos_imp_zdiv_nonneg_iff)
  have "(D - s) div DAY * DAY = D - s"
    using a by (metis add.right_neutral div_mult_mod_eq)
  then have D: "D = s + int k * DAY"
    using nn by (simp add: k_def)
  have "(D - s) div DAY \<le> (e - s) div DAY"
    using a DAY_pos by (simp add: zdiv_mono1)
  then have "k < nat ((e - s) div DAY + 1)"
    using nn by (simp add: k_def)
  then show "D \<in> set (date_range s e)"
    using D by (auto simp: date_range_def)
qed

lemma distinct_date_range: "distinct (date_range s e)"
  using DAY_pos by (auto simp: date_range_def distinct_map inj_on_def)

lemma count_list_distinct: "distinct xs \<Longrightarrow> count_list xs x = (if x \<in> set xs then 1 else 0)"
  by (induction xs) auto

lemma map_filter_append: "List.map_filter f (xs @ ys) = List.map_filter f xs @ List.map_filter f ys"
  by (simp add: List.map_filter_def)

lemma keys_of_row:
  "List.map_filter id (map notna_key (map (\<lambda>d. (d, B, C, P, S)) ds))
     = (case (B, C, P, S) of
          (Some b, Some c, Some p, Some s) \<Rightarrow> map (\<lambda>d. (d, b, c, p, s)) ds
        | _ \<Rightarrow> [])"
  by (induction ds) (auto simp: List.map_filter_def notna_key_def split: option.splits)

lemma count_keys_of_row:
  "count_list (List.map_filter id (map notna_key
       (map (\<lambda>d. (d, Battalion m, Company m, Platoon m, Squad m)) (date_range (start_date m) e))))
     (D, b, c, p, s)
   = (if D \<in> set (date_range (start_date m) e) \<and> in_unit m (b, c, p, s) then 1 else 0)"
proof -
  have inj: "inj (\<lambda>d. (d, b', c', p', s'))" for b' c' p' s' :: string
    by (simp add: inj_on_def)
  have "distinct (map (\<lambda>d. (d, b', c', p', s')) (date_range (start_date m) e))" for b' c' p' s' :: string
    using distinct_date_range by (simp add: distinct_map inj_on_def)
  then show ?thesis
    unfolding keys_of_row
    by (auto simp: in_unit_def count_list_distinct split: option.splits)
qed

lemma daily_rows_count:
  assumes "daily_rows ms = Inr rows"
  shows "count_list (List.map_filter id (map notna_key rows)) (D, u)
       = length (filter (\<lambda>m. in_range m D \<and> in_unit m u) ms)"
  using assms
proof (induction ms arbitrary: rows)
  case Nil
  then show ?case by (simp add: List.map_filter_def)
next
  case (Cons m ms)
  obtain b c p s where u: "u = (b, c, p, s)" by (cases u)
  from Cons.prems obtain e rest where e: "end_date m = Some e" and rest: "daily_rows ms = Inr rest"
    and rows: "rows = map (\<lambda>d. (d, Battalion m, Company m, Platoon m, Squad m))
                        (date_range (start_date m) e) @ rest"
    by (auto split: option.splits sum.splits)
  have "count_list (List.map_filter id (map notna_key rows)) (D, b, c, p, s)
      = count_list (List.map_filter id (map notna_key
          (map (\<lambda>d. (d, Battalion m, Company m, Platoon m, Squad m)) (date_range (start_date m) e))))
          (D, b, c, p, s)
        + count_list (List.map_filter id (map notna_key rest)) (D, b, c, p, s)"
    unfolding rows by (simp only: map_append map_filter_append count_list_append)
  also have "\<dots> = (if D \<in> set (date_range (start_date m) e) \<and> in_unit m (b, c, p, s) then 1 else 0)
        + length (filter (\<lambda>m. in_range m D \<and> in_unit m (b, c, p, s)) ms)"
    by (simp only: count_keys_of_row Cons.IH [OF rest, unfolded u])
  also have "\<dots> = length (filter (\<lambda>m. in_range m D \<and> in_unit m (b, c, p, s)) (m # ms))"
    using e by (simp add: in_range_def)
  finally show ?case
    by (simp only: u)
qed

lemma strength_at_groupby:
  "strength_at (sort_key fst (groupby_size keys)) k = count_list (List.map_filter id keys) k"
proof -
  define ks where "ks = List.map_filter id keys"
  have t: "groupby_size keys = map (\<lambda>k. (k, count_list ks k)) (sort (remdups ks))"
    by (simp add: groupby_size_def ks_def Let_def)
  have "map fst (groupby_size keys) = sort (remdups ks)"
    by (simp add: t comp_def)
  then have "sort_key fst (groupby_size keys) = groupby_size keys"
    by (simp add: sort_key_id_if_sorted)
  moreover have "map_of (groupby_size keys) k
      = (if k \<in> set ks then Some (count_list ks k) else None)"
    unfolding t by (simp add: map_of_map_restrict restrict_map_def)
  ultimately show ?thesis
    by (auto simp: strength_at_def ks_def [symmetric] count_list_0_iff)
qed

lemma groupby_keys:
  "map fst (sort_key fst (groupby_size keys)) = sort (remdups (List.map_filter id keys))"
proof -
  have "map fst (groupby_size keys) = sort (remdups (List.map_filter id keys))"
    by (simp add: groupby_size_def comp_def Let_def)
  then show ?thesis
    by (simp add: sort_key_id_if_sorted)
qed

lemma in_range_covers:
  assumes "is_date D" and "is_date (start_date m)"
  shows "in_range m D = covers m D"
proof -
  have "(D - start_date m) mod DAY = 0"
    using assms by (simp add: is_date_def mod_eq_0_iff_dvd)
  then show ?thesis
    by (simp add: in_range_def covers_def date_range_iff split: option.splits)
qed

lemma filter_in_range_covers:
  assumes "is_date D" and "list_all (\<lambda>m. is_date (start_date m)) ms"
  shows "filter (\<lambda>m. in_range m D \<and> in_unit m u) ms = filter (\<lambda>m. covers m D \<and> in_unit m u) ms"
  using assms by (intro filter_cong) (auto simp: list_all_iff in_range_covers)

lemma daily_strength_count:
  assumes "calculate_daily_strength ms = Inr table"
  shows "strength_at table (D, u) = length (filter (\<lambda>m. in_range m D \<and> in_unit m u) ms)"
    and "map fst table = sort (remdups (List.map_filter id (map notna_key (projr (daily_rows ms)))))"
proof -
  from assms obtain rows where rows: "daily_rows ms = Inr rows"
    and table: "table = sort_key fst (groupby_size (map notna_key rows))"
    by (auto simp: calculate_daily_strength_def split: sum.splits if_splits)
  show "strength_at table (D, u) = length (filter (\<lambda>m. in_range m D \<and> in_unit m u) ms)"
    unfolding table strength_at_groupby using daily_rows_count [OF rows] by simp
  show "map fst table = sort (remdups (List.map_filter id (map notna_key (projr (daily_rows ms)))))"
    unfolding table groupby_keys by (simp add: rows)
qed

lemma daily_strength_row_iff:
  assumes "calculate_daily_strength ms = Inr table"
  shows "(k \<in> set (map fst table)) = (1 \<le> strength_at table k)"
proof -
  from assms obtain rows where table: "table = sort_key fst (groupby_size (map notna_key rows))"
    by (auto simp: calculate_daily_strength_def split: sum.splits if_splits)
  have "set (map fst table) = set (List.map_filter id (map notna_key rows))"
    unfolding table groupby_keys by simp
  then show ?thesis
    unfolding table strength_at_groupby
    using count_list_0_iff [of "List.map_filter id (map notna_key rows)" k] by auto
qed

text \<open>
  C6 (as amended). When \<open>calculate_daily_strength\<close> returns a table (every row has an
  end date and some date is listed), the start dates are calendar dates, \<open>D\<close> is a
  calendar date and the unit \<open>(b, c, p, s)\<close> has all four fields, the strength at
  \<open>D\<close> and that unit is the number of rows of that unit whose span from start date to
  end date contains \<open>D\<close>; the table has a row for the date and unit exactly when that
  number is at least 1, and one row at most.
\<close>

theorem daily_strength_counts:
  assumes "calculate_daily_strength ms = Inr table"
    and "is_date D"
    and "list_all (\<lambda>m. is_date (start_date m)) ms"
  shows "strength_at table (D, b, c, p, s)
           = length (filter (\<lambda>m. covers m D \<and> in_unit m (b, c, p, s)) ms)
       \<and> (((D, b, c, p, s) \<in> set (map fst table))
            = (1 \<le> length (filter (\<lambda>m. covers m D \<and> in_unit m (b, c, p, s)) ms)))
       \<and> distinct (map fst table) \<and> sorted (map fst table)"
proof -
  have 1: "strength_at table (D, b, c, p, s)
           = length (filter (\<lambda>m. covers m D \<and> in_unit m (b, c, p, s)) ms)"
    using daily_strength_count(1) [OF assms(1)] filter_in_range_covers [OF assms(2,3)] by simp
  have 2: "((D, b, c, p, s) \<in> set (map fst table)) = (1 \<le> strength_at table (D, b, c, p, s))"
    by (rule daily_strength_row_iff [OF assms(1)])
  have 3: "distinct (map fst table) \<and> sorted (map fst table)"
    unfolding daily_strength_count(2) [OF assms(1)] by simp
  show ?thesis
    using 1 2 3 by simp
qed

theorem daily_strength_counts_witness:
  "calculate_daily_strength
     [\<lparr> Squad = Some ''2'', Platoon = Some ''3'', Company = Some ''B'', Battalion = Some ''2-7'',
        start_date = 1672531200000000, end_date = Some 1672704000000000 \<rparr>,
      \<lparr> Squad = Some ''2'', Platoon = Some ''3'', Company = Some ''B'', Battalion = Some ''2-7'',
        start_date = 1672617600000000, end_date = Some 1672704000000005 \<rparr>]
   = Inr [((1672531200000000, ''2-7'', ''B'', ''3'', ''2''), 1),
          ((1672617600000000, ''2-7'', ''B'', ''3'', ''2''), 2),
          ((1672704000000000, ''2-7'', ''B'', ''3'', ''2''), 2)]
   \<and> strength_at
       [((1672531200000000, ''2-7'', ''B'', ''3'', ''2''), 1),
        ((1672617600000000, ''2-7'', ''B'', ''3'', ''2''), 2),
        ((1672704000000000, ''2-7'', ''B'', ''3'', ''2''), 2)]
       (1672617600000000, ''2-7'', ''B'', ''3'', ''2'') = 2
   \<and> length (filter (\<lambda>m. covers m 1672617600000000 \<and> in_unit m (''2-7'', ''B'', ''3'', ''2''))
       [\<lparr> Squad = Some ''2'', Platoon = Some ''3'', Company = Some ''B'', Battalion = Some ''2-7'',
          start_date = 1672531200000000, end_date = Some 1672704000000000 \<rparr>,
        \<lparr> Squad = Some ''2'', Platoon = Some ''3'', Company = Some ''B'', Battalion = Some ''2-7'',
          start_date = 1672617600000000, end_date = Some 1672704000000005 \<rparr>]) = 2"
proof -
  define ms where "ms =
     [\<lparr> Squad = Some ''2'', Platoon = Some ''3'', Company = Some ''B'', Battalion = Some ''2-7'',
        start_date = 1672531200000000, end_date = Some 1672704000000000 \<rparr>,
      \<lparr> Squad = Some ''2'', Platoon = Some ''3'', Company = Some ''B'', Battalion = Some ''2-7'',
        start_date = 1672617600000000, end_date = Some (1672704000000005 :: int) \<rparr>]"
  have h1: "calculate_daily_strength ms
    = Inr [((1672531200000000, ''2-7'', ''B'', ''3'', ''2''), 1),
          ((1672617600000000, ''2-7'', ''B'', ''3'', ''2''), 2),
          ((1672704000000000, ''2-7'', ''B'', ''3'', ''2''), 2)]"
    unfolding ms_def by code_simp
  have h2: "is_date 1672617600000000"
    by (simp add: is_date_def DAY_def)
  have h3: "list_all (\<lambda>m. is_date (start_date m)) ms"
    by (simp add: ms_def is_date_def DAY_def)
  show ?thesis
    using daily_strength_counts [OF h1 h2 h3, of "''2-7''" "''B''" "''3''" "''2''"] h1
    unfolding ms_def by (simp add: strength_at_def)
qed

text \<open>
  C6 as stated fails for a unit with a missing field: a row without Squad covers the
  date, and the table has no row for it.
\<close>

theorem daily_strength_unknown_unit_counterexample:
  "calculate_daily_strength
     [\<lparr> Squad = None, Platoon = Some ''3'', Company = Some ''B'', Battalion = Some ''2-7'',
        start_date = 1672531200000000, end_date = Some 1672704000000000 \<rparr>] = Inr []
   \<and> covers \<lparr> Squad = None, Platoon = Some ''3'', Company = Some ''B'', Battalion = Some ''2-7'',
        start_date = 1672531200000000, end_date = Some 1672704000000000 \<rparr> 1672617600000000"
  by code_simp

section \<open>Rows with a missing unit field\<close>

lemma notna_key_None_iff:
  "notna_key (d, Battalion m, Company m, Platoon m, Squad m) = None \<longleftrightarrow> \<not> known_unit m"
  by (auto simp: notna_key_def known_unit_def split: option.splits)

lemma keys_of_unknown_row:
  assumes "\<not> known_unit m"
  shows "List.map_filter id (map notna_key
           (map (\<lambda>d. (d, Battalion m, Company m, Platoon m, Squad m)) ds)) = []"
  using assms unfolding keys_of_row by (auto simp: known_unit_def split: option.splits)

lemma daily_rows_known:
  assumes "daily_rows ms = Inr rows"
  shows "\<exists>rows'. daily_rows (filter known_unit ms) = Inr rows'
       \<and> List.map_filter id (map notna_key rows') = List.map_filter id (map notna_key rows)"
  using assms
proof (induction ms arbitrary: rows)
  case Nil
  then show ?case by simp
next
  case (Cons m ms)
  from Cons.prems obtain e rest where e: "end_date m = Some e" and rest: "daily_rows ms = Inr rest"
    and rows: "rows = map (\<lambda>d. (d, Battalion m, Company m, Platoon m, Squad m))
                        (date_range (start_date m) e) @ rest"
    by (auto split: option.splits sum.splits)
  from Cons.IH [OF rest] obtain rest' where r1: "daily_rows (filter known_unit ms) = Inr rest'"
    and r2: "List.map_filter id (map notna_key rest') = List.map_filter id (map notna_key rest)"
    by blast
  show ?case
  proof (cases "known_unit m")
    case True
    then show ?thesis
      using e r1 r2 unfolding rows by (simp add: map_filter_append id_def del: map_map)
  next
    case False
    then show ?thesis
      using r1 r2 keys_of_unknown_row [OF False] unfolding rows
      by (simp add: map_filter_append id_def del: map_map)
  qed
qed

lemma daily_strength_known:
  assumes "calculate_daily_strength ms = Inr table"
  shows "calculate_daily_strength (filter known_unit ms) = Inr table
       \<or> (table = [] \<and> calculate_daily_strength (filter known_unit ms) = Inl KeyError)"
proof -
  from assms obtain rows where rows: "daily_rows ms = Inr rows"
    and table: "table = sort_key fst (groupby_size (map notna_key rows))"
    by (auto simp: calculate_daily_strength_def split: sum.splits if_splits)
  from daily_rows_known [OF rows] obtain rows' where r1: "daily_rows (filter known_unit ms) = Inr rows'"
    and r2: "List.map_filter id (map notna_key rows') = List.map_filter id (map notna_key rows)"
    by blast
  have same: "groupby_size (map notna_key rows') = groupby_size (map notna_key rows)"
    by (simp add: groupby_size_def r2)
  show ?thesis
  proof (cases "rows' = []")
    case True
    then have "List.map_filter id (map notna_key rows) = []"
      using r2 by (simp add: List.map_filter_def)
    then have "table = []"
      unfolding table by (simp add: groupby_size_def)
    then show ?thesis
      using True r1 by (simp add: calculate_daily_strength_def)
  next
    case False
    then show ?thesis
      using r1 same table by (simp add: calculate_daily_strength_def)
  qed
qed

lemma cohort_key_None_iff: "cohort_key m = None \<longleftrightarrow> \<not> known_unit m"
  by (simp add: cohort_key_def notna_key_None_iff)

lemma map_filter_cohort_known:
  "List.map_filter cohort_key (filter known_unit ms) = List.map_filter cohort_key ms"
proof (induction ms)
  case Nil
  then show ?case by simp
next
  case (Cons m ms)
  then show ?case
    using cohort_key_None_iff [of m]
    by (cases "cohort_key m") (auto simp: List.map_filter_def)
qed

lemma cohort_group_known: "cohort_group (filter known_unit ms) k = cohort_group ms k"
proof -
  have "cohort_key m = Some k \<Longrightarrow> known_unit m" for m
    using cohort_key_None_iff [of m] by auto
  then show ?thesis
    unfolding cohort_group_def filter_filter by (intro filter_cong) auto
qed

lemma retention_known:
  assumes "calculate_retention ivs ms = Inr rows"
  shows "calculate_retention ivs (filter known_unit ms) = Inr rows
       \<or> (rows = [] \<and> calculate_retention ivs (filter known_unit ms) = Inl KeyError)"
proof (cases "filter known_unit ms = []")
  case True
  then have "List.map_filter cohort_key ms = []"
    using map_filter_cohort_known [of ms] by (simp add: List.map_filter_def)
  then have "rows = []"
    using assms by (auto simp: calculate_retention_def split: if_splits)
  then show ?thesis
    using True by (simp add: calculate_retention_def)
next
  case False
  then show ?thesis
    using assms
    by (auto simp: calculate_retention_def map_filter_cohort_known cohort_group_known
             split: if_splits)
qed

text \<open>
  C3 (as amended). Both aggregations leave out every interval with a missing unit
  field: when \<open>calculate_daily_strength\<close> or \<open>calculate_retention\<close> returns a table, it
  is the table of the intervals whose four unit fields are all present (and the empty
  table when there is no such interval). There is no "unknown" bucket.
\<close>

theorem unknown_units_left_out:
  "(calculate_daily_strength ms = Inr table \<longrightarrow>
      calculate_daily_strength (filter known_unit ms) = Inr table
      \<or> (table = [] \<and> calculate_daily_strength (filter known_unit ms) = Inl KeyError))
   \<and> (calculate_retention ivs ms = Inr rows \<longrightarrow>
      calculate_retention ivs (filter known_unit ms) = Inr rows
      \<or> (rows = [] \<and> calculate_retention ivs (filter known_unit ms) = Inl KeyError))"
  using daily_strength_known retention_known by blast

theorem unknown_units_left_out_witness:
  "calculate_daily_strength
     [\<lparr> Squad = None, Platoon = Some ''1'', Company = Some ''A'', Battalion = Some ''1-7'',
        start_date = 1672531200000000, end_date = Some 1672704000000000 \<rparr>,
      \<lparr> Squad = Some ''2'', Platoon = Some ''3'', Company = Some ''B'', Battalion = Some ''2-7'',
        start_date = 1672617600000000, end_date = Some 1672704000000005 \<rparr>]
   = Inr [((1672617600000000, ''2-7'', ''B'', ''3'', ''2''), 1),
          ((1672704000000000, ''2-7'', ''B'', ''3'', ''2''), 1)]
   \<and> calculate_daily_strength
     [\<lparr> Squad = Some ''2'', Platoon = Some ''3'', Company = Some ''B'', Battalion = Some ''2-7'',
        start_date = 1672617600000000, end_date = Some 1672704000000005 \<rparr>]
   = Inr [((1672617600000000, ''2-7'', ''B'', ''3'', ''2''), 1),
          ((1672704000000000, ''2-7'', ''B'', ''3'', ''2''), 1)]
   \<and> calculate_retention [30]
     [\<lparr> Squad = None, Platoon = Some ''1'', Company = Some ''A'', Battalion = Some ''1-7'',
        start_date = 1672531200000000, end_date = Some 1672704000000000 \<rparr>,
      \<lparr> Squad = Some ''2'', Platoon = Some ''3'', Company = Some ''B'', Battalion = Some ''2-7'',
        start_date = 1672617600000000, end_date = Some 1672704000000005 \<rparr>]
   = Inr [\<lparr> Cohort_unit = (''2023-01'', ''2-7'', ''B'', ''3'', ''2''), Total_Members = 1,
             Retention = [(30, 0)] \<rparr>]
   \<and> calculate_retention [30]
     [\<lparr> Squad = Some ''2'', Platoon = Some ''3'', Company = Some ''B'', Battalion = Some ''2-7'',
        start_date = 1672617600000000, end_date = Some 1672704000000005 \<rparr>]
   = Inr [\<lparr> Cohort_unit = (''2023-01'', ''2-7'', ''B'', ''3'', ''2''), Total_Members = 1,
             Retention = [(30, 0)] \<rparr>]"
proof -
  define u where "u = \<lparr> Squad = None, Platoon = Some ''1'', Company = Some ''A'',
      Battalion = Some ''1-7'', start_date = 1672531200000000, end_date = Some (1672704000000000 :: int) \<rparr>"
  define k where "k = \<lparr> Squad = Some ''2'', Platoon = Some ''3'', Company = Some ''B'',
      Battalion = Some ''2-7'', start_date = 1672617600000000, end_date = Some (1672704000000005 :: int) \<rparr>"
  have h1: "calculate_daily_strength [u, k]
      = Inr [((1672617600000000, ''2-7'', ''B'', ''3'', ''2''), 1),
             ((1672704000000000, ''2-7'', ''B'', ''3'', ''2''), 1)]"
    unfolding u_def k_def by code_simp
  have h2: "calculate_retention [30] [u, k]
      = Inr [\<lparr> Cohort_unit = (''2023-01'', ''2-7'', ''B'', ''3'', ''2''), Total_Members = 1,
               Retention = [(30, 0)] \<rparr>]"
    unfolding u_def k_def by code_simp
  have f: "filter known_unit [u, k] = [k]"
    by (simp add: u_def k_def known_unit_def)
  define tbl where "tbl = [((1672617600000000 :: int, ''2-7'', ''B'', ''3'', ''2''), 1 :: nat),
             ((1672704000000000, ''2-7'', ''B'', ''3'', ''2''), 1)]"
  define rws where "rws = [\<lparr> Cohort_unit = (''2023-01'', ''2-7'', ''B'', ''3'', ''2''),
      Total_Members = 1, Retention = [(30 :: int, 0 :: rat)] \<rparr>]"
  have ne: "tbl \<noteq> []" "rws \<noteq> []"
    by (simp_all add: tbl_def rws_def)
  have "calculate_daily_strength [k] = Inr tbl \<and> calculate_retention [30] [k] = Inr rws"
    using unknown_units_left_out [of "[u, k]" tbl "[30]" rws] h1 h2 ne
    unfolding f tbl_def [symmetric] rws_def [symmetric] by simp
  then show ?thesis
    using h1 h2 unfolding u_def k_def tbl_def rws_def by simp
qed

text \<open>
  C3 as stated fails: an interval without Squad is in neither table.
\<close>

theorem unknown_bucket_counterexample:
  "calculate_daily_strength
     [\<lparr> Squad = None, Platoon = Some ''3'', Company = Some ''B'', Battalion = Some ''2-7'',
        start_date = 1672531200000000, end_date = Some 1672704000000000 \<rparr>] = Inr []
   \<and> calculate_retention default_intervals
     [\<lparr> Squad = None, Platoon = Some ''3'', Company = Some ''B'', Battalion = Some ''2-7'',
        start_date = 1672531200000000, end_date = Some 1672704000000000 \<rparr>] = Inr []"
  by code_simp

section \<open>The interval of a member who is still active\<close>







section \<open>Cohort retention\<close>















section \<open>The clock and repeated runs\<close>

lemma create_memberships_clock:
  assumes "snd (create_memberships_loop events [] None) \<noteq> None \<longrightarrow> now1 = now2"
  shows "create_memberships now1 events = create_memberships now2 events"
  using assms
  by (cases "create_memberships_loop events [] None")
     (auto simp: create_memberships_def split: option.splits)

lemma main_loop_clock:
  assumes "\<forall>i < length docs. open_ended parse (docs ! i) \<longrightarrow> clock1 (idx + i) = clock2 (idx + i)"
  shows "main_loop parse clock1 idx docs = main_loop parse clock2 idx docs"
  using assms
proof (induction docs arbitrary: idx)
  case Nil
  then show ?case by simp
next
  case (Cons data rest)
  have "\<forall>i < length rest. open_ended parse (rest ! i) \<longrightarrow> clock1 (Suc idx + i) = clock2 (Suc idx + i)"
    using Cons.prems by auto
  then have rest: "main_loop parse clock1 (Suc idx) rest = main_loop parse clock2 (Suc idx) rest"
    by (rule Cons.IH)
  have here: "open_ended parse data \<longrightarrow> clock1 idx = clock2 idx"
    using Cons.prems by force
  show ?case
  proof (cases "extract_events parse data")
    case (Inl e)
    then show ?thesis by simp
  next
    case (Inr events)
    then have "create_memberships (clock1 idx) events = create_memberships (clock2 idx) events"
      using here by (intro create_memberships_clock) (simp add: open_ended_def)
    then show ?thesis
      using Inr rest by (simp split: sum.splits)
  qed
qed

text \<open>
  C4 (as amended). The clock is an input of both pipelines: \<open>create_memberships\<close>
  reads it for every member whose events end with an open interval. Two runs over the
  same documents give the same table when the clock readings agree for those members;
  when no member is left with an open interval the tables do not depend on the clock.
\<close>

theorem runs_agree_when_clock_readings_agree:
  assumes "\<forall>i < length docs. open_ended parse_unit_ush (docs ! i) \<longrightarrow> clock1 (Suc i) = clock2 (Suc i)"
    and "\<forall>i < length docs. open_ended parse_unit_cra (docs ! i) \<longrightarrow> clock1 (Suc i) = clock2 (Suc i)"
  shows "main_ush clock1 docs = main_ush clock2 docs \<and> main_cra clock1 docs = main_cra clock2 docs"
proof -
  have "main_loop parse_unit_ush clock1 1 docs = main_loop parse_unit_ush clock2 1 docs"
    using assms(1) by (intro main_loop_clock) simp
  moreover have "main_loop parse_unit_cra clock1 1 docs = main_loop parse_unit_cra clock2 1 docs"
    using assms(2) by (intro main_loop_clock) simp
  ultimately show ?thesis
    by (simp add: main_ush_def main_cra_def)
qed

theorem runs_agree_when_clock_readings_agree_witness:
  "main_ush (\<lambda>i. 1672617600000000)
     [\<lparr>records = Some
        [\<lparr> recordType = Some ''RECORD_TYPE_TRANSFER'', recordDate = Some ''2023-01-01'',
            recordDetails = Some ''Assigned 2/3/B/2-7'' \<rparr>,
         \<lparr> recordType = Some ''RECORD_TYPE_DISCHARGE'', recordDate = Some ''2023-01-02'',
            recordDetails = Some ''retired'' \<rparr>]\<rparr>]
   = main_ush (\<lambda>i. 1685577600000000)
     [\<lparr>records = Some
        [\<lparr> recordType = Some ''RECORD_TYPE_TRANSFER'', recordDate = Some ''2023-01-01'',
            recordDetails = Some ''Assigned 2/3/B/2-7'' \<rparr>,
         \<lparr> recordType = Some ''RECORD_TYPE_DISCHARGE'', recordDate = Some ''2023-01-02'',
            recordDetails = Some ''retired'' \<rparr>]\<rparr>]
   \<and> main_cra (\<lambda>i. 1672617600000000)
     [\<lparr>records = Some
        [\<lparr> recordType = Some ''RECORD_TYPE_TRANSFER'', recordDate = Some ''2023-01-01'',
            recordDetails = Some ''Assigned 2/3/B/2-7'' \<rparr>,
         \<lparr> recordType = Some ''RECORD_TYPE_DISCHARGE'', recordDate = Some ''2023-01-02'',
            recordDetails = Some ''retired'' \<rparr>]\<rparr>]
   = main_cra (\<lambda>i. 1685577600000000)
     [\<lparr>records = Some
        [\<lparr> recordType = Some ''RECORD_TYPE_TRANSFER'', recordDate = Some ''2023-01-01'',
            recordDetails = Some ''Assigned 2/3/B/2-7'' \<rparr>,
         \<lparr> recordType = Some ''RECORD_TYPE_DISCHARGE'', recordDate = Some ''2023-01-02'',
            recordDetails = Some ''retired'' \<rparr>]\<rparr>]"
proof -
  define doc where "doc = \<lparr>records = Some
        [\<lparr> recordType = Some ''RECORD_TYPE_TRANSFER'', recordDate = Some ''2023-01-01'',
            recordDetails = Some ''Assigned 2/3/B/2-7'' \<rparr>,
         \<lparr> recordType = Some ''RECORD_TYPE_DISCHARGE'', recordDate = Some ''2023-01-02'',
            recordDetails = Some ''retired'' \<rparr>]\<rparr>"
  have c: "\<not> open_ended parse_unit_ush doc" "\<not> open_ended parse_unit_cra doc"
    unfolding doc_def by code_simp+
  have h1: "\<forall>i < length [doc]. open_ended parse_unit_ush ([doc] ! i)
      \<longrightarrow> (\<lambda>i. 1672617600000000 :: int) (Suc i) = (\<lambda>i. 1685577600000000) (Suc i)"
    using c by simp
  have h2: "\<forall>i < length [doc]. open_ended parse_unit_cra ([doc] ! i)
      \<longrightarrow> (\<lambda>i. 1672617600000000 :: int) (Suc i) = (\<lambda>i. 1685577600000000) (Suc i)"
    using c by simp
  show ?thesis
    using runs_agree_when_clock_readings_agree [OF h1 h2] unfolding doc_def .
qed

text \<open>
  C4 as stated fails: the scripts have no as-of parameter and read the clock. The
  same single document gives a two-row table when the clock reads 2023-01-02 and a
  three-row table when it reads 2023-01-03.
\<close>

theorem runs_differ_with_clock_counterexample:
  "main_ush (\<lambda>i. 1672617600000000)
     [\<lparr>records = Some
        [\<lparr> recordType = Some ''RECORD_TYPE_TRANSFER'', recordDate = Some ''2023-01-01'',
            recordDetails = Some ''Assigned 2/3/B/2-7'' \<rparr>]\<rparr>]
   = Inr (Some [((1672531200000000, ''2-7'', ''B'', ''3'', ''2''), 1),
                ((1672617600000000, ''2-7'', ''B'', ''3'', ''2''), 1)])
   \<and> main_ush (\<lambda>i. 1672704000000000)
     [\<lparr>records = Some
        [\<lparr> recordType = Some ''RECORD_TYPE_TRANSFER'', recordDate = Some ''2023-01-01'',
            recordDetails = Some ''Assigned 2/3/B/2-7'' \<rparr>]\<rparr>]
   = Inr (Some [((1672531200000000, ''2-7'', ''B'', ''3'', ''2''), 1),
                ((1672617600000000, ''2-7'', ''B'', ''3'', ''2''), 1),
                ((1672704000000000, ''2-7'', ''B'', ''3'', ''2''), 1)])"
proof -
  define doc where "doc = \<lparr>records = Some
        [\<lparr> recordType = Some ''RECORD_TYPE_TRANSFER'', recordDate = Some ''2023-01-01'',
            recordDetails = Some ''Assigned 2/3/B/2-7'' \<rparr>]\<rparr>"
  have ev: "extract_events parse_unit_ush doc
      = Inr [\<lparr> Squad = Some ''2'', Platoon = Some ''3'', Company = Some ''B'',
               Battalion = Some ''2-7'', date = 1672531200000000, event = transfer \<rparr>]"
    unfolding doc_def by code_simp
  have cm: "create_memberships now
        [\<lparr> Squad = Some ''2'', Platoon = Some ''3'', Company = Some ''B'',
           Battalion = Some ''2-7'', date = 1672531200000000, event = transfer \<rparr>]
      = [\<lparr> Squad = Some ''2'', Platoon = Some ''3'', Company = Some ''B'',
           Battalion = Some ''2-7'', start_date = 1672531200000000, end_date = Some now \<rparr>]" for now
    by (simp add: create_memberships_def)
  have t1: "calculate_daily_strength
        [\<lparr> Squad = Some ''2'', Platoon = Some ''3'', Company = Some ''B'',
           Battalion = Some ''2-7'', start_date = 1672531200000000,
           end_date = Some 1672617600000000 \<rparr>]
      = Inr [((1672531200000000, ''2-7'', ''B'', ''3'', ''2''), 1),
             ((1672617600000000, ''2-7'', ''B'', ''3'', ''2''), 1)]"
    by code_simp
  have t2: "calculate_daily_strength
        [\<lparr> Squad = Some ''2'', Platoon = Some ''3'', Company = Some ''B'',
           Battalion = Some ''2-7'', start_date = 1672531200000000,
           end_date = Some 1672704000000000 \<rparr>]
      = Inr [((1672531200000000, ''2-7'', ''B'', ''3'', ''2''), 1),
             ((1672617600000000, ''2-7'', ''B'', ''3'', ''2''), 1),
             ((1672704000000000, ''2-7'', ''B'', ''3'', ''2''), 1)]"
    by code_simp
  show ?thesis
    unfolding doc_def [symmetric]
    by (simp add: main_ush_def ev cm t1 t2)
qed

end
